theory Spec2Isabelle
  imports Complex_Main
begin

section \<open>Python values, exceptions and numpy arrays\<close>

text \<open>
  The two source files, \<^verbatim>\<open>energy_model_functions.py\<close> and
  \<^verbatim>\<open>load_a_netcdf_example.py\<close>, are embedded function by function. Every
  exception a function can raise is a value \<open>Inl e\<close> of the result type; a normal return is
  \<open>Inr v\<close>. Array elements are real numbers: the rounding of IEEE doubles, NaN and the
  infinities are not represented.
\<close>

datatype py_error =
    NameError string
  | TypeError
  | ValueError
  | IndexError
  | KeyError string
  | ZeroDivisionError
  | FileNotFoundError string

text \<open>Sequencing: the first exception raised ends the computation.\<close>

fun bind_err :: "'e + 'a \<Rightarrow> ('a \<Rightarrow> 'e + 'b) \<Rightarrow> 'e + 'b" where
  "bind_err (Inl e) f = Inl e"
| "bind_err (Inr v) f = f v"

text \<open>In Python's exception hierarchy, IndexError and KeyError derive from LookupError.\<close>

fun is_LookupError :: "py_error \<Rightarrow> bool" where
  "is_LookupError IndexError = True"
| "is_LookupError (KeyError k) = True"
| "is_LookupError e = False"

text \<open>
  A numpy array is its shape and its elements in C (row-major) order, as numpy stores it.
  A zero-dimensional array (shape \<open>[]\<close>, one element) stands for a scalar.
\<close>

record ndarray =
  shape :: "nat list"
  flat :: "real list"

definition wf_ndarray :: "ndarray \<Rightarrow> bool" where
  "wf_ndarray a = (length (flat a) = prod_list (shape a))"

definition scalar :: "real \<Rightarrow> ndarray" where
  "scalar r = \<lparr>shape = [], flat = [r]\<rparr>"

text \<open>The objects a name of the module can be bound to.\<close>

datatype pyval = PInt int | PFloat real | PArr ndarray | PFun string

text \<open>
  The global namespace of the module at the time of a call. A name that a function body reads
  and that is neither a parameter nor assigned in the body is looked up here; an unbound name
  raises NameError. The imports (\<^verbatim>\<open>np\<close>, \<^verbatim>\<open>shapely\<close>, ...) and the
  builtins \<^verbatim>\<open>len\<close>, \<^verbatim>\<open>range\<close> are taken to be what the source file
  imports and what Python provides.
\<close>

type_synonym namespace = "string \<rightharpoonup> pyval"

definition load_global :: "namespace \<Rightarrow> string \<Rightarrow> py_error + pyval" where
  "load_global g n = (case g n of None \<Rightarrow> Inl (NameError n) | Some v \<Rightarrow> Inr v)"

text \<open>
  The names \<^verbatim>\<open>energy_model_functions.py\<close> itself binds at module level: four
  imports and four function definitions.
\<close>

definition module_globals :: namespace where
  "module_globals = map_of
     [(''np'', PFun ''numpy''),
      (''shpreader'', PFun ''cartopy.io.shapereader''),
      (''Dataset'', PFun ''netCDF4.Dataset''),
      (''shapely'', PFun ''shapely''),
      (''load_country_weather_data'', PFun ''load_country_weather_data''),
      (''solar_PV_model'', PFun ''solar_PV_model''),
      (''calc_hdd_cdd'', PFun ''calc_hdd_cdd''),
      (''calc_national_wd_demand_2017'', PFun ''calc_national_wd_demand_2017'')]"

text \<open>An operand of numpy arithmetic: numbers are scalars, a function object is refused.\<close>

fun as_array :: "pyval \<Rightarrow> py_error + ndarray" where
  "as_array (PInt n) = Inr (scalar (of_int n))"
| "as_array (PFloat r) = Inr (scalar r)"
| "as_array (PArr a) = Inr a"
| "as_array (PFun f) = Inl TypeError"

subsection \<open>Elementwise arithmetic and broadcasting\<close>

text \<open>An array combined with a Python float: the operation is applied to every element.\<close>

definition nd_map :: "(real \<Rightarrow> real) \<Rightarrow> ndarray \<Rightarrow> ndarray" where
  "nd_map f a = \<lparr>shape = shape a, flat = map f (flat a)\<rparr>"

text \<open>
  numpy's broadcasting of two shapes, aligned at the last axis: two extents are compatible
  when they are equal or one of them is 1; a missing leading axis counts as 1. The shapes are
  given last axis first.
\<close>

fun broadcast_rev :: "nat list \<Rightarrow> nat list \<Rightarrow> nat list option" where
  "broadcast_rev [] ys = Some ys"
| "broadcast_rev (x # xs) [] = Some (x # xs)"
| "broadcast_rev (x # xs) (y # ys) =
     (if x = y \<or> y = 1 then map_option ((#) x) (broadcast_rev xs ys)
      else if x = 1 then map_option ((#) y) (broadcast_rev xs ys)
      else None)"

definition broadcast_shape :: "nat list \<Rightarrow> nat list \<Rightarrow> nat list option" where
  "broadcast_shape s t = map_option rev (broadcast_rev (rev s) (rev t))"

text \<open>All index tuples of a shape, in C order.\<close>

fun indices :: "nat list \<Rightarrow> nat list list" where
  "indices [] = [[]]"
| "indices (n # ns) = concat (map (\<lambda>i. map ((#) i) (indices ns)) [0..<n])"

text \<open>
  The position in the flat data of an index tuple of the broadcast result (shape and index
  last axis first): an axis of extent 1 is read at 0, leading axes the array lacks are ignored.
\<close>

fun offset_rev :: "nat list \<Rightarrow> nat list \<Rightarrow> nat" where
  "offset_rev [] is = 0"
| "offset_rev (d # ds) [] = 0"
| "offset_rev (d # ds) (i # is) = (if d = 1 then 0 else i) + d * offset_rev ds is"

definition nd_get :: "ndarray \<Rightarrow> nat list \<Rightarrow> real" where
  "nd_get a idx = flat a ! offset_rev (rev (shape a)) (rev idx)"

definition nd_binop :: "(real \<Rightarrow> real \<Rightarrow> real) \<Rightarrow> ndarray \<Rightarrow> ndarray \<Rightarrow> py_error + ndarray" where
  "nd_binop f a b =
     (case broadcast_shape (shape a) (shape b) of
        None \<Rightarrow> Inl ValueError
      | Some s \<Rightarrow> Inr \<lparr>shape = s, flat = map (\<lambda>idx. f (nd_get a idx) (nd_get b idx)) (indices s)\<rparr>)"

subsection \<open>The numpy and builtin functions the source calls\<close>

text \<open>
  \<^verbatim>\<open>np.average(a, weights=w)\<close> with no \<^verbatim>\<open>axis\<close>: numpy raises TypeError
  ("Axis must be specified when shapes of a and weights differ") unless both shapes are equal,
  raises ZeroDivisionError ("Weights sum to zero, can't be normalized") when the weights sum to
  zero, and otherwise returns the one number \<open>sum (a * w) / sum w\<close> over all elements.
\<close>

definition np_average :: "ndarray \<Rightarrow> ndarray \<Rightarrow> py_error + real" where
  "np_average a w =
     (if shape a \<noteq> shape w then Inl TypeError
      else let scl = sum_list (flat w) in
        if scl = 0 then Inl ZeroDivisionError
        else Inr (sum_list (map2 (*) (flat a) (flat w)) / scl))"

text \<open>\<^verbatim>\<open>np.nan_to_num\<close> leaves every finite number as it is.\<close>

definition np_nan_to_num :: "ndarray \<Rightarrow> ndarray" where
  "np_nan_to_num a = a"

text \<open>\<^verbatim>\<open>np.zeros(n)\<close> wants an integer extent.\<close>

fun np_zeros :: "pyval \<Rightarrow> py_error + ndarray" where
  "np_zeros (PInt n) =
     (if n < 0 then Inl ValueError else Inr \<lparr>shape = [nat n], flat = replicate (nat n) 0\<rparr>)"
| "np_zeros v = Inl TypeError"

text \<open>\<^verbatim>\<open>np.reshape\<close> keeps the data and needs the same number of elements.\<close>

definition np_reshape :: "ndarray \<Rightarrow> nat list \<Rightarrow> py_error + ndarray" where
  "np_reshape a s =
     (if prod_list s = length (flat a) then Inr \<lparr>shape = s, flat = flat a\<rparr> else Inl ValueError)"

text \<open>\<^verbatim>\<open>len\<close>: the first extent of an array; a number has no length.\<close>

fun py_len :: "pyval \<Rightarrow> py_error + nat" where
  "py_len (PArr a) = (case shape a of [] \<Rightarrow> Inl TypeError | n # ns \<Rightarrow> Inr n)"
| "py_len v = Inl TypeError"

text \<open>\<^verbatim>\<open>range(0, n)\<close> wants an integer.\<close>

fun py_range :: "pyval \<Rightarrow> py_error + nat list" where
  "py_range (PInt n) = Inr [0..<nat n]"
| "py_range v = Inl TypeError"

text \<open>
  \<^verbatim>\<open>a[i]\<close> read as a number: an element of a one-dimensional array. A numpy
  scalar and a zero-dimensional array cannot be indexed. A row of an array of more dimensions
  is not a number (the comparison that follows it in the source raises ValueError); no such
  array reaches an index expression in this program.
\<close>

fun py_getitem :: "pyval \<Rightarrow> nat \<Rightarrow> py_error + real" where
  "py_getitem (PArr a) i =
     (case shape a of
        [] \<Rightarrow> Inl IndexError
      | [n] \<Rightarrow> if i < n \<and> i < length (flat a) then Inr (flat a ! i) else Inl IndexError
      | n # m # ms \<Rightarrow> Inl ValueError)"
| "py_getitem (PFloat r) i = Inl IndexError"
| "py_getitem v i = Inl TypeError"

text \<open>\<^verbatim>\<open>a[i] = v\<close> on a one-dimensional array.\<close>

definition py_setitem :: "ndarray \<Rightarrow> nat \<Rightarrow> real \<Rightarrow> py_error + ndarray" where
  "py_setitem a i v =
     (if i < length (flat a) then Inr \<lparr>shape = shape a, flat = (flat a)[i := v]\<rparr>
      else Inl IndexError)"

section \<open>solar_PV_model\<close>

text \<open>
  The body never reads its two parameters. It reads \<^verbatim>\<open>Masked_T2m\<close>,
  \<^verbatim>\<open>Masked_SWGDN\<close> and \<^verbatim>\<open>MASK_MATRIX_RESHAPE\<close>, which are neither
  parameters nor assigned in the body, so they are looked up in the global namespace, in the
  order in which the three statements evaluate them.
\<close>

definition solar_PV_model :: "namespace \<Rightarrow> ndarray \<Rightarrow> ndarray \<Rightarrow> py_error + real" where
  "solar_PV_model g country_masked_data_T2m country_masked_data_ssrd =
     (let T_ref = 25; eff_ref = 0.9; beta_ref = 0.0042; G_ref = 1000 in
      bind_err (load_global g ''Masked_T2m'') (\<lambda>v1.
      bind_err (as_array v1) (\<lambda>Masked_T2m.
      let rel_efficiency_of_pannel =
            nd_map (\<lambda>t. eff_ref * (1 - beta_ref * (t - T_ref))) Masked_T2m in
      bind_err (load_global g ''Masked_SWGDN'') (\<lambda>v2.
      bind_err (as_array v2) (\<lambda>Masked_SWGDN.
      bind_err (nd_binop (*) rel_efficiency_of_pannel (nd_map (\<lambda>s. s / G_ref) Masked_SWGDN))
        (\<lambda>p.
      let capacity_factor_of_pannel = np_nan_to_num p in
      bind_err (load_global g ''MASK_MATRIX_RESHAPE'') (\<lambda>v3.
      bind_err (as_array v3) (\<lambda>MASK_MATRIX_RESHAPE.
      np_average capacity_factor_of_pannel MASK_MATRIX_RESHAPE))))))))"

section \<open>calc_national_wd_demand_2017\<close>

text \<open>
  The body is the single statement \<^verbatim>\<open>return(demand_timeseries)\<close>: none of the four
  parameters is read, and the name returned is looked up in the global namespace.
\<close>

definition calc_national_wd_demand_2017 ::
    "namespace \<Rightarrow> ndarray \<Rightarrow> ndarray \<Rightarrow> string \<Rightarrow> string \<Rightarrow> py_error + pyval" where
  "calc_national_wd_demand_2017 g hdd cdd filestr_reg_coefficients COUNTRY =
     load_global g ''demand_timeseries''"

section \<open>calc_hdd_cdd\<close>

text \<open>
  The two loops of the body. Each step reads \<^verbatim>\<open>spatial_mean_t2m[i]\<close> and stores
  the thresholded value at index \<open>i\<close>; either access raises IndexError out of range.
\<close>

fun hdd_loop :: "pyval \<Rightarrow> nat list \<Rightarrow> ndarray \<Rightarrow> py_error + ndarray" where
  "hdd_loop spatial_mean_t2m [] HDD_term = Inr HDD_term"
| "hdd_loop spatial_mean_t2m (i # is) HDD_term =
     bind_err (py_getitem spatial_mean_t2m i) (\<lambda>t.
     bind_err (py_setitem HDD_term i (if t \<le> 15.5 then 15.5 - t else 0)) (\<lambda>H.
     hdd_loop spatial_mean_t2m is H))"

fun cdd_loop :: "pyval \<Rightarrow> nat list \<Rightarrow> ndarray \<Rightarrow> py_error + ndarray" where
  "cdd_loop spatial_mean_t2m [] CDD_term = Inr CDD_term"
| "cdd_loop spatial_mean_t2m (i # is) CDD_term =
     bind_err (py_getitem spatial_mean_t2m i) (\<lambda>t.
     bind_err (py_setitem CDD_term i (if t \<ge> 22.0 then t - 22.0 else 0)) (\<lambda>C.
     cdd_loop spatial_mean_t2m is C))"

text \<open>
  The body, statement by statement. \<^verbatim>\<open>np.average\<close> is called without an axis, so
  its result is one number; \<^verbatim>\<open>np.zeros(len)\<close> passes the builtin function
  \<^verbatim>\<open>len\<close>, not \<^verbatim>\<open>timeseries_len\<close>; the loop bound
  \<^verbatim>\<open>len_of_training_period\<close> is neither a parameter nor assigned in the body.
\<close>

definition calc_hdd_cdd ::
    "namespace \<Rightarrow> ndarray \<Rightarrow> ndarray \<Rightarrow> py_error + (ndarray \<times> ndarray)" where
  "calc_hdd_cdd g t2m_array country_mask =
     bind_err (np_average t2m_array country_mask) (\<lambda>spatial_mean_t2m.
     bind_err (py_len (PFloat spatial_mean_t2m)) (\<lambda>timeseries_len.
     bind_err (np_zeros (PInt (int timeseries_len))) (\<lambda>HDD_term.
     bind_err (np_zeros (PFun ''len'')) (\<lambda>CDD_term.
     bind_err (load_global g ''len_of_training_period'') (\<lambda>n1.
     bind_err (py_range n1) (\<lambda>r1.
     bind_err (hdd_loop (PFloat spatial_mean_t2m) r1 HDD_term) (\<lambda>HDD_term.
     bind_err (load_global g ''len_of_training_period'') (\<lambda>n2.
     bind_err (py_range n2) (\<lambda>r2.
     bind_err (cdd_loop (PFloat spatial_mean_t2m) r2 CDD_term) (\<lambda>CDD_term.
     Inr (HDD_term, CDD_term)))))))))))"

section \<open>Loading a NetCDF file\<close>

text \<open>
  A NetCDF dataset is the dictionary \<^verbatim>\<open>dataset.variables\<close>; the file system maps
  a path to the dataset stored there. Opening a missing file and reading a missing variable
  raise.
\<close>

type_synonym dataset = "string \<rightharpoonup> ndarray"

type_synonym filesystem = "string \<rightharpoonup> dataset"

definition Dataset :: "filesystem \<Rightarrow> string \<Rightarrow> py_error + dataset" where
  "Dataset fs file_str =
     (case fs file_str of None \<Rightarrow> Inl (FileNotFoundError file_str) | Some d \<Rightarrow> Inr d)"

definition variables :: "dataset \<Rightarrow> string \<Rightarrow> py_error + ndarray" where
  "variables d k = (case d k of None \<Rightarrow> Inl (KeyError k) | Some a \<Rightarrow> Inr a)"

text \<open>\<^verbatim>\<open>load_weather_data_daily\<close> of \<^verbatim>\<open>load_a_netcdf_example.py\<close>.\<close>

definition load_weather_data_daily ::
    "filesystem \<Rightarrow> string \<Rightarrow> string \<Rightarrow> string \<Rightarrow> py_error + (ndarray \<times> ndarray \<times> ndarray)" where
  "load_weather_data_daily fs data_dir filename nc_key =
     (let file_str = data_dir @ filename in
      bind_err (Dataset fs file_str) (\<lambda>dataset.
      bind_err (variables dataset ''longitude'') (\<lambda>lons.
      bind_err (variables dataset ''latitude'') (\<lambda>lats.
      bind_err (variables dataset nc_key) (\<lambda>data.
      let data = (if nc_key = ''t2m'' then nd_map (\<lambda>v. v - 273.15) data else data);
          data = (if nc_key = ''ssrd'' then nd_map (\<lambda>v. v / 3600) data else data)
      in Inr (data, lons, lats))))))"

section \<open>load_country_weather_data\<close>

text \<open>
  A record of the Natural Earth shapefile: the attribute \<^verbatim>\<open>NAME_LONG\<close> and the
  geometry. The geometry type and shapely's \<^verbatim>\<open>contains\<close> are parameters.
\<close>

record 'g shp_record =
  NAME_LONG :: string
  geometry :: "'g"

text \<open>
  The first loop: the geometries of all records whose \<^verbatim>\<open>NAME_LONG\<close> is the
  country asked for, in the order of the shapefile.
\<close>

fun find_country_shapely :: "'g shp_record list \<Rightarrow> string \<Rightarrow> 'g list" where
  "find_country_shapely [] COUNTRY = []"
| "find_country_shapely (country # rest) COUNTRY =
     (if NAME_LONG country = COUNTRY
      then geometry country # find_country_shapely rest COUNTRY
      else find_country_shapely rest COUNTRY)"

text \<open>
  \<^verbatim>\<open>np.meshgrid(lons, lats)\<close> followed by \<^verbatim>\<open>flatten()\<close>: the grid has one
  row per latitude, so \<open>x\<close> repeats the longitudes for every latitude and \<open>y\<close> repeats
  each latitude once per longitude.
\<close>

definition meshgrid_x :: "ndarray \<Rightarrow> ndarray \<Rightarrow> real list" where
  "meshgrid_x lons lats = concat (replicate (length (flat lats)) (flat lons))"

definition meshgrid_y :: "ndarray \<Rightarrow> ndarray \<Rightarrow> real list" where
  "meshgrid_y lons lats = concat (map (replicate (length (flat lons))) (flat lats))"

text \<open>
  The loop over the grid points. \<^verbatim>\<open>country_shapely[0]\<close> is evaluated in every
  step and raises IndexError on an empty list; \<^verbatim>\<open>MASK_MATRIX[i,0]\<close> is element
  \<open>i\<close> of an array with one column.
\<close>

fun mask_loop ::
    "('g \<Rightarrow> real \<times> real \<Rightarrow> bool) \<Rightarrow> 'g list \<Rightarrow> real list \<Rightarrow> real list \<Rightarrow> nat list \<Rightarrow> ndarray
       \<Rightarrow> py_error + ndarray" where
  "mask_loop contains country_shapely x y [] MASK_MATRIX = Inr MASK_MATRIX"
| "mask_loop contains country_shapely x y (i # is) MASK_MATRIX =
     (case country_shapely of
        [] \<Rightarrow> Inl IndexError
      | c # cs \<Rightarrow>
          mask_loop contains country_shapely x y is
            (if contains c (x ! i, y ! i)
             then \<lparr>shape = shape MASK_MATRIX, flat = (flat MASK_MATRIX)[i := 1]\<rparr>
             else MASK_MATRIX))"

text \<open>
  Lines 67 to 78: the mask of a list of geometries on the grid of the file. The array
  \<^verbatim>\<open>points\<close> is built and never read; it is left out. The two extents of the
  reshape are evaluated after the loop.
\<close>

definition build_mask ::
    "('g \<Rightarrow> real \<times> real \<Rightarrow> bool) \<Rightarrow> 'g list \<Rightarrow> ndarray \<Rightarrow> ndarray \<Rightarrow> py_error + ndarray" where
  "build_mask contains country_shapely lons lats =
     (let x = meshgrid_x lons lats;
          y = meshgrid_y lons lats;
          MASK_MATRIX = \<lparr>shape = [length x, 1], flat = replicate (length x) 0\<rparr>
      in
      bind_err (mask_loop contains country_shapely x y [0..<length x] MASK_MATRIX)
        (\<lambda>MASK_MATRIX.
      bind_err (py_len (PArr lats)) (\<lambda>ny.
      bind_err (py_len (PArr lons)) (\<lambda>nx.
      np_reshape MASK_MATRIX [ny, nx]))))"

text \<open>
  The whole function. The message printed for each matching record is not part of the result
  and is left out.
\<close>

definition load_country_weather_data ::
    "('g \<Rightarrow> real \<times> real \<Rightarrow> bool) \<Rightarrow> 'g shp_record list \<Rightarrow> filesystem
       \<Rightarrow> string \<Rightarrow> string \<Rightarrow> string \<Rightarrow> string \<Rightarrow> py_error + (ndarray \<times> ndarray)" where
  "load_country_weather_data contains records fs COUNTRY data_dir filename nc_key =
     (let country_shapely = find_country_shapely records COUNTRY;
          file_str = data_dir @ filename
      in
      bind_err (Dataset fs file_str) (\<lambda>dataset.
      bind_err (variables dataset ''longitude'') (\<lambda>lons.
      bind_err (variables dataset ''latitude'') (\<lambda>lats.
      bind_err (variables dataset nc_key) (\<lambda>data.
      let data = (if nc_key = ''t2m'' then nd_map (\<lambda>v. v - 273.15) data else data);
          data = (if nc_key = ''ssrd'' then nd_map (\<lambda>v. v / 3600) data else data)
      in
      bind_err (build_mask contains country_shapely lons lats) (\<lambda>MASK_MATRIX_RESHAPE.
      bind_err (nd_binop (*) data MASK_MATRIX_RESHAPE) (\<lambda>country_masked_data.
      Inr (country_masked_data, MASK_MATRIX_RESHAPE))))))))"

section \<open>Concrete inputs\<close>

text \<open>
  A geometry on which containment can be computed: the axis-aligned box between a south-west
  and a north-east corner, its border included. It instantiates the geometry parameter in the
  evaluations below.
\<close>

definition box_contains :: "(real \<times> real) \<times> (real \<times> real) \<Rightarrow> real \<times> real \<Rightarrow> bool" where
  "box_contains b p =
     (fst (fst b) \<le> fst p \<and> fst p \<le> fst (snd b) \<and> snd (fst b) \<le> snd p \<and> snd p \<le> snd (snd b))"



text \<open>
  A shapefile in which the name Atlantis has two records, one box around (0, 0) and one around
  (10, 0), and a file with two time steps on a grid of one latitude and two longitudes.
\<close>

definition atlantis_records :: "((real \<times> real) \<times> (real \<times> real)) shp_record list" where
  "atlantis_records =
     [\<lparr>NAME_LONG = ''Atlantis'', geometry = ((-1, -1), (1, 1))\<rparr>,
      \<lparr>NAME_LONG = ''Lemuria'', geometry = ((20, 20), (30, 30))\<rparr>,
      \<lparr>NAME_LONG = ''Atlantis'', geometry = ((9, -1), (11, 1))\<rparr>]"

definition era5_dataset :: dataset where
  "era5_dataset = map_of
     [(''longitude'', \<lparr>shape = [2], flat = [0, 10]\<rparr>),
      (''latitude'', \<lparr>shape = [1], flat = [0]\<rparr>),
      (''t2m'', \<lparr>shape = [2, 1, 2], flat = [300, 301, 302, 303]\<rparr>),
      (''ssrd'', \<lparr>shape = [2, 1, 2], flat = [3600, 7200, 0, 1800]\<rparr>),
      (''u10'', \<lparr>shape = [2, 1, 2], flat = [1, 2, 3, 4]\<rparr>)]"

definition example_fs :: filesystem where
  "example_fs = map_of [(''data/era5.nc'', era5_dataset)]"

text \<open>
  A shapefile without a record named Mu, and a file whose longitude axis has no entry, so that
  its grid has no cell.
\<close>

definition lemuria_records :: "((real \<times> real) \<times> (real \<times> real)) shp_record list" where
  "lemuria_records = [\<lparr>NAME_LONG = ''Lemuria'', geometry = ((20, 20), (30, 30))\<rparr>]"

definition empty_grid_dataset :: dataset where
  "empty_grid_dataset = map_of
     [(''longitude'', \<lparr>shape = [0], flat = []\<rparr>),
      (''latitude'', \<lparr>shape = [1], flat = [0]\<rparr>),
      (''t2m'', \<lparr>shape = [2, 1, 0], flat = []\<rparr>)]"

definition empty_grid_fs :: filesystem where
  "empty_grid_fs = map_of [(''data/empty.nc'', empty_grid_dataset)]"

section \<open>Auxiliary facts\<close>

subsection \<open>Sequencing\<close>

lemma bind_err_assoc:
  "bind_err (bind_err m f) h = bind_err m (\<lambda>v. bind_err (f v) h)"
  by (cases m) simp_all

lemma bind_err_Inr: "bind_err m Inr = m"
  by (cases m) simp_all

subsection \<open>The outcomes of calc_hdd_cdd\<close>

text \<open>
  Whatever the namespace holds, the function ends in one of three exceptions: numpy's refusal
  of weights of another shape, numpy's refusal of weights that sum to zero, or, when
  \<^verbatim>\<open>np.average\<close> has returned its number, the TypeError of \<^verbatim>\<open>len\<close>
  applied to that number.
\<close>

lemma calc_hdd_cdd_cases:
  "calc_hdd_cdd g t2m_array country_mask =
     (if shape t2m_array \<noteq> shape country_mask then Inl TypeError
      else if sum_list (flat country_mask) = 0 then Inl ZeroDivisionError
      else Inl TypeError)"
  by (simp add: calc_hdd_cdd_def np_average_def Let_def)

subsection \<open>The two loops of calc_hdd_cdd on a series\<close>

lemma fill_prefix_step:
  assumes "k < n" "length xs = n"
  shows "(map f (take k xs) @ replicate (n - k) (0::real))[k := f (xs ! k)]
         = map f (take (Suc k) xs) @ replicate (n - Suc k) 0"
proof (rule nth_equalityI)
  show "length ((map f (take k xs) @ replicate (n - k) 0)[k := f (xs ! k)])
        = length (map f (take (Suc k) xs) @ replicate (n - Suc k) 0)"
    using assms by simp
next
  fix j assume "j < length ((map f (take k xs) @ replicate (n - k) 0)[k := f (xs ! k)])"
  then have j: "j < n" using assms by simp
  consider "j < k" | "j = k" | "k < j" by linarith
  then show "(map f (take k xs) @ replicate (n - k) 0)[k := f (xs ! k)] ! j
             = (map f (take (Suc k) xs) @ replicate (n - Suc k) 0) ! j"
  proof cases
    case 1
    with assms j show ?thesis by (simp add: nth_append)
  next
    case 2
    with assms j show ?thesis by (simp add: nth_append)
  next
    case 3
    with assms j show ?thesis by (simp add: nth_append)
  qed
qed

text \<open>
  Both loops have the same form; the facts are stated once, for any function that satisfies
  the two equations of such a loop with the value \<open>f t\<close> stored in each step.
\<close>

lemma threshold_loop_snoc:
  assumes nil: "\<And>H. loop [] H = Inr H"
    and cons: "\<And>i js H. loop (i # js) H =
                 bind_err (py_getitem sm i) (\<lambda>t.
                 bind_err (py_setitem H i (f t)) (\<lambda>H'. loop js H'))"
  shows "loop (js @ [i]) H =
           bind_err (loop js H) (\<lambda>H'. bind_err (py_getitem sm i) (\<lambda>t. py_setitem H' i (f t)))"
proof (induction js arbitrary: H)
  case Nil
  have "(\<lambda>H'. loop [] H') = Inr" by (rule ext) (rule nil)
  then show ?case by (simp add: cons nil bind_err_Inr)
next
  case (Cons j js)
  show ?case by (simp add: cons Cons.IH bind_err_assoc)
qed

lemma threshold_loop_prefix:
  assumes nil: "\<And>H. loop [] H = Inr H"
    and cons: "\<And>i js H. loop (i # js) H =
                 bind_err (py_getitem (PArr T) i) (\<lambda>t.
                 bind_err (py_setitem H i (f t)) (\<lambda>H'. loop js H'))"
    and T: "shape T = [n]" "length (flat T) = n"
    and k: "k \<le> n"
  shows "loop [0..<k] \<lparr>shape = [n], flat = replicate n 0\<rparr>
         = Inr \<lparr>shape = [n], flat = map f (take k (flat T)) @ replicate (n - k) 0\<rparr>"
  using k
proof (induction k)
  case 0
  show ?case by (simp add: nil)
next
  case (Suc k)
  then have k: "k < n" by simp
  let ?Z = "\<lparr>shape = [n], flat = replicate n 0\<rparr>"
  let ?Hk = "\<lparr>shape = [n], flat = map f (take k (flat T)) @ replicate (n - k) 0\<rparr>"
  have IH: "loop [0..<k] ?Z = Inr ?Hk" using Suc by simp
  have get: "py_getitem (PArr T) k = Inr (flat T ! k)"
    using T k by simp
  have "loop [0..<Suc k] ?Z = loop ([0..<k] @ [k]) ?Z" by simp
  also have "\<dots> = bind_err (loop [0..<k] ?Z)
       (\<lambda>H'. bind_err (py_getitem (PArr T) k) (\<lambda>t. py_setitem H' k (f t)))"
    by (rule threshold_loop_snoc [of loop "PArr T" f, OF nil cons])
  also have "\<dots> = py_setitem ?Hk k (f (flat T ! k))"
    by (simp only: IH get bind_err.simps)
  also have "\<dots> = Inr \<lparr>shape = [n],
       flat = (map f (take k (flat T)) @ replicate (n - k) 0)[k := f (flat T ! k)]\<rparr>"
    using k T by (simp add: py_setitem_def)
  also have "\<dots> = Inr \<lparr>shape = [n],
       flat = map f (take (Suc k) (flat T)) @ replicate (n - Suc k) 0\<rparr>"
    by (simp only: fill_prefix_step [OF k T(2)])
  finally show ?case .
qed

text \<open>
  Run on a one-dimensional series of length \<open>n\<close> with the bound \<open>n\<close>, the loops store
  \<open>max 0 (15.5 - T[i])\<close> and \<open>max 0 (T[i] - 22)\<close>. \<^verbatim>\<open>calc_hdd_cdd\<close> never
  runs them: see \<open>calc_hdd_cdd_cases\<close>.
\<close>

lemma hdd_loop_thresholds:
  assumes "shape T = [n]" "length (flat T) = n"
  shows "hdd_loop (PArr T) [0..<n] \<lparr>shape = [n], flat = replicate n 0\<rparr>
           = Inr \<lparr>shape = [n], flat = map (\<lambda>t. max 0 (15.5 - t)) (flat T)\<rparr>"
proof -
  have f: "(\<lambda>t::real. if t \<le> 15.5 then 15.5 - t else 0) = (\<lambda>t. max 0 (15.5 - t))"
    by (rule ext) (simp add: max_def)
  have "hdd_loop (PArr T) [0..<n] \<lparr>shape = [n], flat = replicate n 0\<rparr>
      = Inr \<lparr>shape = [n], flat = map (\<lambda>t. if t \<le> 15.5 then 15.5 - t else 0) (take n (flat T))
                                   @ replicate (n - n) 0\<rparr>"
    by (rule threshold_loop_prefix [of "hdd_loop (PArr T)" T, OF _ _ assms])
       (simp_all only: hdd_loop.simps order_refl)
  then show ?thesis
    unfolding f using assms(2) by simp
qed

lemma cdd_loop_thresholds:
  assumes "shape T = [n]" "length (flat T) = n"
  shows "cdd_loop (PArr T) [0..<n] \<lparr>shape = [n], flat = replicate n 0\<rparr>
           = Inr \<lparr>shape = [n], flat = map (\<lambda>t. max 0 (t - 22.0)) (flat T)\<rparr>"
proof -
  have f: "(\<lambda>t::real. if t \<ge> 22.0 then t - 22.0 else 0) = (\<lambda>t. max 0 (t - 22.0))"
    by (rule ext) (simp add: max_def)
  have "cdd_loop (PArr T) [0..<n] \<lparr>shape = [n], flat = replicate n 0\<rparr>
      = Inr \<lparr>shape = [n], flat = map (\<lambda>t. if t \<ge> 22.0 then t - 22.0 else 0) (take n (flat T))
                                   @ replicate (n - n) 0\<rparr>"
    by (rule threshold_loop_prefix [of "cdd_loop (PArr T)" T, OF _ _ assms])
       (simp_all only: cdd_loop.simps order_refl)
  then show ?thesis
    unfolding f using assms(2) by simp
qed

subsection \<open>The weighted mean of one slice\<close>

text \<open>
  On a field and weights of one and the same shape \<^verbatim>\<open>np.average\<close> returns the
  weighted mean of all elements, and the plain mean when every weight is 1.
\<close>

lemma sum_list_map2_ones:
  "sum_list (map2 (*) xs (replicate (length xs) (1::real))) = sum_list xs"
  by (induction xs) simp_all

lemma np_average_all_ones:
  assumes "shape a = shape w" "flat w = replicate (length (flat a)) 1" "flat a \<noteq> []"
  shows "np_average a w = Inr (sum_list (flat a) / real (length (flat a)))"
  using assms by (simp add: np_average_def sum_list_replicate sum_list_map2_ones)

subsection \<open>The grid and the mask loop\<close>

lemma length_meshgrid_x: "length (meshgrid_x lons lats) = length (flat lats) * length (flat lons)"
  by (simp add: meshgrid_x_def length_concat sum_list_replicate)

lemma length_meshgrid_y: "length (meshgrid_y lons lats) = length (flat lats) * length (flat lons)"
  by (simp add: meshgrid_y_def length_concat comp_def sum_list_triv)



lemma mask_loop_first_part_only:
  "mask_loop contains (c # cs) x y is M = mask_loop contains [c] x y is M"
  by (induction "is" arbitrary: M) simp_all

lemma mask_loop_returns:
  "\<exists>M'. mask_loop contains (c # cs) x y is M = Inr M' \<and> shape M' = shape M
        \<and> length (flat M') = length (flat M)"
proof (induction "is" arbitrary: M)
  case Nil
  show ?case by simp
next
  case (Cons i "is")
  let ?M1 = "if contains c (x ! i, y ! i)
             then \<lparr>shape = shape M, flat = (flat M)[i := 1]\<rparr> else M"
  from Cons.IH [of ?M1] show ?case by auto
qed

lemma mask_loop_cell:
  assumes "mask_loop contains (c # cs) x y is M = Inr M'" "distinct is" "k < length (flat M)"
  shows "flat M' ! k = (if k \<in> set is \<and> contains c (x ! k, y ! k) then 1 else flat M ! k)"
  using assms
proof (induction "is" arbitrary: M)
  case Nil
  then show ?case by simp
next
  case (Cons i "is")
  let ?M1 = "if contains c (x ! i, y ! i)
             then \<lparr>shape = shape M, flat = (flat M)[i := 1]\<rparr> else M"
  have run: "mask_loop contains (c # cs) x y is ?M1 = Inr M'"
    using Cons.prems(1) by simp
  have d: "distinct is" and ni: "i \<notin> set is"
    using Cons.prems(2) by simp_all
  have len: "k < length (flat ?M1)"
    using Cons.prems(3) by simp
  have step: "flat M' ! k = (if k \<in> set is \<and> contains c (x ! k, y ! k) then 1 else flat ?M1 ! k)"
    by (rule Cons.IH [OF run d len])
  show ?case
  proof (cases "k = i")
    case True
    with step ni Cons.prems(3) show ?thesis by simp
  next
    case False
    with step show ?thesis by simp
  qed
qed

subsection \<open>The lookup of the country\<close>



subsection \<open>build_mask\<close>

lemma build_mask_no_country:
  assumes "flat lons \<noteq> []" "flat lats \<noteq> []"
  shows "build_mask contains [] lons lats = Inl IndexError"
proof -
  have "0 < length (flat lats) * length (flat lons)"
    using assms by simp
  then have "[0..<length (meshgrid_x lons lats)] = 0 # [Suc 0..<length (meshgrid_x lons lats)]"
    by (simp add: length_meshgrid_x upt_conv_Cons)
  then show ?thesis
    by (simp add: build_mask_def Let_def)
qed

lemma build_mask_first_part_only:
  "build_mask contains (c # cs) lons lats = build_mask contains [c] lons lats"
  by (simp add: build_mask_def Let_def mask_loop_first_part_only [of contains c cs])

lemma build_mask_returns:
  assumes "shape lons = [Nx]" "wf_ndarray lons" "shape lats = [Ny]" "wf_ndarray lats"
  shows "\<exists>m. build_mask contains (c # cs) lons lats = Inr m \<and> shape m = [Ny, Nx]
            \<and> length (flat m) = Ny * Nx
            \<and> mask_loop contains (c # cs) (meshgrid_x lons lats) (meshgrid_y lons lats)
                 [0..<Ny * Nx] \<lparr>shape = [Ny * Nx, 1], flat = replicate (Ny * Nx) 0\<rparr>
               = Inr \<lparr>shape = [Ny * Nx, 1], flat = flat m\<rparr>"
proof -
  have nx: "length (flat lons) = Nx" and ny: "length (flat lats) = Ny"
    using assms by (simp_all add: wf_ndarray_def)
  have lx: "length (meshgrid_x lons lats) = Ny * Nx"
    by (simp add: length_meshgrid_x nx ny)
  obtain M' where M': "mask_loop contains (c # cs) (meshgrid_x lons lats) (meshgrid_y lons lats)
        [0..<Ny * Nx] \<lparr>shape = [Ny * Nx, 1], flat = replicate (Ny * Nx) 0\<rparr> = Inr M'"
      and sh: "shape M' = [Ny * Nx, 1]" and len: "length (flat M') = Ny * Nx"
    using mask_loop_returns [of contains c cs "meshgrid_x lons lats" "meshgrid_y lons lats"
        "[0..<Ny * Nx]" "\<lparr>shape = [Ny * Nx, 1], flat = replicate (Ny * Nx) 0\<rparr>"]
    by auto
  have eqM: "M' = \<lparr>shape = [Ny * Nx, 1], flat = flat M'\<rparr>"
    using sh by (cases M') simp
  have "build_mask contains (c # cs) lons lats = Inr \<lparr>shape = [Ny, Nx], flat = flat M'\<rparr>"
    using M' len by (simp add: build_mask_def Let_def lx assms(1,3) np_reshape_def)
  with M' eqM len show ?thesis by auto
qed


section \<open>The claims\<close>

text \<open>
  C1. The claim: for every temperature series \<open>T\<close> of length \<open>n\<close>,
  \<^verbatim>\<open>calc_hdd_cdd\<close> returns series HDD and CDD of length \<open>n\<close> with
  \<open>HDD[i] = max 0 (15.5 - T[i])\<close> and \<open>CDD[i] = max 0 (T[i] - 22)\<close>, and for
  \<open>T = [10, 15.5, 16, 22, 25]\<close> it returns \<open>[5.5, 0, 0, 0, 0]\<close> and \<open>[0, 0, 0, 0, 3]\<close>.
  The code: every call of \<^verbatim>\<open>calc_hdd_cdd\<close> raises, for every namespace and all
  arguments; on the series of the claim, given as a field of five time steps on a grid of one
  cell with the mask 1, or as a one-dimensional series with five weights 1, it raises TypeError.
\<close>

theorem calc_hdd_cdd_always_raises:
  "(\<exists>e. calc_hdd_cdd g t2m_array country_mask = Inl e)
   \<and> calc_hdd_cdd module_globals
        \<lparr>shape = [5, 1, 1], flat = [10, 15.5, 16, 22, 25]\<rparr> \<lparr>shape = [1, 1], flat = [1]\<rparr>
      = Inl TypeError
   \<and> calc_hdd_cdd module_globals
        \<lparr>shape = [5], flat = [10, 15.5, 16, 22, 25]\<rparr> \<lparr>shape = [5], flat = [1, 1, 1, 1, 1]\<rparr>
      = Inl TypeError"
  by (simp add: calc_hdd_cdd_cases)

text \<open>
  C2. The claim: for every field [time, lat, lon] and every mask [lat, lon] with positive
  weight sum, the spatial-mean step returns an array of length time holding the mask-weighted
  mean of each time step. The code: the step is \<^verbatim>\<open>np.average(field, weights=mask)\<close>
  without an axis; for every three-dimensional field and every two-dimensional mask it raises
  TypeError, and so does \<^verbatim>\<open>calc_hdd_cdd\<close> on a field of two time steps with the
  all-ones mask, where the claim expects \<open>[1.5, 3.5]\<close>.
\<close>

theorem np_average_of_field_and_mask_raises:
  "np_average \<lparr>shape = [nt, ny, nx], flat = vs\<rparr> \<lparr>shape = [my, mx], flat = ws\<rparr> = Inl TypeError
   \<and> calc_hdd_cdd g \<lparr>shape = [2, 1, 2], flat = [1, 2, 3, 4]\<rparr> \<lparr>shape = [1, 2], flat = [1, 1]\<rparr>
      = Inl TypeError"
  by (simp add: calc_hdd_cdd_cases np_average_def)




text \<open>
  C4. The claim: \<^verbatim>\<open>solar_PV_model\<close> returns the mask-weighted mean of
  \<open>0.9 * (1 - 0.0042 * (T - 25)) * (irradiance / 1000)\<close> per time step, and 0.9 for
  \<open>T = 25\<close> and irradiance 1000 everywhere. The code: called in the namespace of its module
  with these two fields, it raises NameError for \<^verbatim>\<open>Masked_T2m\<close>.
\<close>

theorem solar_PV_model_raises_at_reference_input:
  "solar_PV_model module_globals
       \<lparr>shape = [1, 2, 2], flat = [25, 25, 25, 25]\<rparr>
       \<lparr>shape = [1, 2, 2], flat = [1000, 1000, 1000, 1000]\<rparr>
     = Inl (NameError ''Masked_T2m'')"
  by (simp add: solar_PV_model_def load_global_def module_globals_def)

text \<open>
  What the body computes once a caller has bound the three names in the module: on fields
  [time, lat, lon] and a mask [lat, lon] the mean without an axis raises TypeError; on one
  slice [lat, lon] with \<open>T = 25\<close>, irradiance 1000 and the all-ones mask it is 0.9.
\<close>

lemma solar_PV_model_with_names_bound:
  "solar_PV_model
     (module_globals
        (''Masked_T2m'' \<mapsto> PArr \<lparr>shape = [1, 1, 2], flat = [25, 25]\<rparr>,
         ''Masked_SWGDN'' \<mapsto> PArr \<lparr>shape = [1, 1, 2], flat = [1000, 1000]\<rparr>,
         ''MASK_MATRIX_RESHAPE'' \<mapsto> PArr \<lparr>shape = [1, 2], flat = [1, 1]\<rparr>)) a b
     = Inl TypeError"
  "solar_PV_model
     (module_globals
        (''Masked_T2m'' \<mapsto> PArr \<lparr>shape = [1, 2], flat = [25, 25]\<rparr>,
         ''Masked_SWGDN'' \<mapsto> PArr \<lparr>shape = [1, 2], flat = [1000, 1000]\<rparr>,
         ''MASK_MATRIX_RESHAPE'' \<mapsto> PArr \<lparr>shape = [1, 2], flat = [1, 1]\<rparr>)) a b
     = Inr 0.9"
  by (simp_all add: solar_PV_model_def load_global_def nd_map_def nd_binop_def
        broadcast_shape_def np_nan_to_num_def np_average_def nd_get_def upt_conv_Cons)

text \<open>
  C5. The claim: \<^verbatim>\<open>calc_national_wd_demand_2017\<close> returns
  \<open>b0 + b1 * HDD[i] + b2 * CDD[i]\<close> for every time step, and \<open>[102, 103]\<close> for the
  coefficients (100, 2, 3), HDD = [1, 0] and CDD = [0, 1]. The code: on these series, and on
  all other arguments, it raises NameError for \<^verbatim>\<open>demand_timeseries\<close> in the
  namespace of its module.
\<close>

theorem calc_national_wd_demand_2017_raises_NameError:
  "calc_national_wd_demand_2017 module_globals
       \<lparr>shape = [2], flat = [1, 0]\<rparr> \<lparr>shape = [2], flat = [0, 1]\<rparr> ''coefficients.csv'' ''France''
     = Inl (NameError ''demand_timeseries'')
   \<and> calc_national_wd_demand_2017 module_globals hdd cdd filestr_reg_coefficients COUNTRY
     = Inl (NameError ''demand_timeseries'')"
  by (simp add: calc_national_wd_demand_2017_def load_global_def module_globals_def)



text \<open>
  C7. For every grid of \<open>Ny\<close> latitudes and \<open>Nx\<close> longitudes and every non-empty list of
  geometries, the mask construction returns a mask of shape \<open>(Ny, Nx)\<close> with
  \<open>Ny * Nx\<close> entries, each of them 0 or 1.
\<close>

theorem build_mask_shape_and_values:
  assumes "country_shapely \<noteq> []"
    and "shape lons = [Nx]" and "wf_ndarray lons"
    and "shape lats = [Ny]" and "wf_ndarray lats"
  shows "\<exists>m. build_mask contains country_shapely lons lats = Inr m
           \<and> shape m = [Ny, Nx] \<and> length (flat m) = Ny * Nx
           \<and> (\<forall>v\<in>set (flat m). v = 0 \<or> v = 1)"
proof -
  obtain c cs where cs: "country_shapely = c # cs"
    using assms(1) by (cases country_shapely) auto
  obtain m where m: "build_mask contains (c # cs) lons lats = Inr m"
      and sh: "shape m = [Ny, Nx]" and len: "length (flat m) = Ny * Nx"
      and loop: "mask_loop contains (c # cs) (meshgrid_x lons lats) (meshgrid_y lons lats)
                 [0..<Ny * Nx] \<lparr>shape = [Ny * Nx, 1], flat = replicate (Ny * Nx) 0\<rparr>
               = Inr \<lparr>shape = [Ny * Nx, 1], flat = flat m\<rparr>"
    using build_mask_returns [OF assms(2-5), of contains c cs] by blast
  have "v = 0 \<or> v = 1" if "v \<in> set (flat m)" for v
  proof -
    from that obtain k where k: "k < Ny * Nx" and v: "v = flat m ! k"
      using len by (auto simp: in_set_conv_nth)
    from mask_loop_cell [OF loop, of k] k
    have "flat m ! k
        = (if contains c (meshgrid_x lons lats ! k, meshgrid_y lons lats ! k) then 1 else 0)"
      by simp
    with v show ?thesis by simp
  qed
  with m sh len cs show ?thesis by blast
qed

text \<open>The theorem of C7 at one box on the grid of the longitudes 0 and 10 at latitude 0.\<close>

theorem build_mask_shape_and_values_witness:
  "[((-1, -1), (1, 1))] \<noteq> [] \<and> wf_ndarray \<lparr>shape = [2], flat = [0, 10]\<rparr>
   \<and> wf_ndarray \<lparr>shape = [1], flat = [0]\<rparr>
   \<and> (\<exists>m. build_mask box_contains [((-1, -1), (1, 1))]
              \<lparr>shape = [2], flat = [0, 10]\<rparr> \<lparr>shape = [1], flat = [0]\<rparr> = Inr m
          \<and> shape m = [1, 2] \<and> length (flat m) = 1 * 2
          \<and> (\<forall>v\<in>set (flat m). v = 0 \<or> v = 1))"
  using build_mask_shape_and_values [of "[((-1, -1), (1, 1))]"
      "\<lparr>shape = [2], flat = [0, 10]\<rparr>" 2 "\<lparr>shape = [1], flat = [0]\<rparr>" 1 box_contains]
  by (simp add: wf_ndarray_def)

text \<open>
  C8. For every file that holds the two coordinate variables and the variable asked for, both
  loaders convert the field in the same way: for the key \<^verbatim>\<open>t2m\<close> every value has
  273.15 subtracted, for the key \<^verbatim>\<open>ssrd\<close> every value is divided by 3600, and for
  every other key the field is unchanged. \<^verbatim>\<open>load_weather_data_daily\<close> returns the
  converted field \<open>r\<close> with the coordinates; \<^verbatim>\<open>load_country_weather_data\<close>
  multiplies the same field \<open>r\<close> by the mask.
\<close>

theorem loaders_apply_unit_conversions:
  assumes "fs (data_dir @ filename) = Some ds"
    and "ds ''longitude'' = Some lons" and "ds ''latitude'' = Some lats"
    and "ds nc_key = Some d"
  shows "\<exists>r. load_weather_data_daily fs data_dir filename nc_key = Inr (r, lons, lats)
           \<and> load_country_weather_data contains records fs COUNTRY data_dir filename nc_key
               = bind_err (build_mask contains (find_country_shapely records COUNTRY) lons lats)
                   (\<lambda>m. bind_err (nd_binop (*) r m) (\<lambda>masked. Inr (masked, m)))
           \<and> shape r = shape d \<and> length (flat r) = length (flat d)
           \<and> (\<forall>i<length (flat d).
                 flat r ! i = (if nc_key = ''t2m'' then flat d ! i - 273.15
                               else if nc_key = ''ssrd'' then flat d ! i / 3600
                               else flat d ! i))
           \<and> (nc_key \<noteq> ''t2m'' \<and> nc_key \<noteq> ''ssrd'' \<longrightarrow> r = d)"
proof -
  define r where "r = (if nc_key = ''t2m'' then nd_map (\<lambda>v. v - 273.15) d
                       else if nc_key = ''ssrd'' then nd_map (\<lambda>v. v / 3600) d else d)"
  have daily: "load_weather_data_daily fs data_dir filename nc_key = Inr (r, lons, lats)"
    using assms by (simp add: load_weather_data_daily_def Dataset_def variables_def r_def)
  have country: "load_country_weather_data contains records fs COUNTRY data_dir filename nc_key
               = bind_err (build_mask contains (find_country_shapely records COUNTRY) lons lats)
                   (\<lambda>m. bind_err (nd_binop (*) r m) (\<lambda>masked. Inr (masked, m)))"
    using assms by (simp add: load_country_weather_data_def Dataset_def variables_def r_def)
  have sh: "shape r = shape d" and len: "length (flat r) = length (flat d)"
    by (simp_all add: r_def nd_map_def)
  have el: "flat r ! i = (if nc_key = ''t2m'' then flat d ! i - 273.15
                               else if nc_key = ''ssrd'' then flat d ! i / 3600
                               else flat d ! i)" if "i < length (flat d)" for i
    using that by (simp add: r_def nd_map_def)
  have other: "nc_key \<noteq> ''t2m'' \<and> nc_key \<noteq> ''ssrd'' \<longrightarrow> r = d"
    by (simp add: r_def)
  from daily country sh len el other show ?thesis by blast
qed

text \<open>
  The theorem of C8 at the example file, for the key \<^verbatim>\<open>t2m\<close> (converted) and for
  the key \<^verbatim>\<open>u10\<close> (unchanged).
\<close>

theorem loaders_apply_unit_conversions_witness:
  "example_fs (''data/'' @ ''era5.nc'') = Some era5_dataset
   \<and> era5_dataset ''longitude'' = Some \<lparr>shape = [2], flat = [0, 10]\<rparr>
   \<and> era5_dataset ''latitude'' = Some \<lparr>shape = [1], flat = [0]\<rparr>
   \<and> era5_dataset ''t2m'' = Some \<lparr>shape = [2, 1, 2], flat = [300, 301, 302, 303]\<rparr>
   \<and> era5_dataset ''u10'' = Some \<lparr>shape = [2, 1, 2], flat = [1, 2, 3, 4]\<rparr>
   \<and> (\<exists>r. load_weather_data_daily example_fs ''data/'' ''era5.nc'' ''t2m''
             = Inr (r, \<lparr>shape = [2], flat = [0, 10]\<rparr>, \<lparr>shape = [1], flat = [0]\<rparr>)
          \<and> shape r = [2, 1, 2] \<and> length (flat r) = 4
          \<and> flat r ! 0 = 300 - 273.15 \<and> flat r ! 3 = 303 - 273.15)
   \<and> load_weather_data_daily example_fs ''data/'' ''era5.nc'' ''u10''
       = Inr (\<lparr>shape = [2, 1, 2], flat = [1, 2, 3, 4]\<rparr>,
              \<lparr>shape = [2], flat = [0, 10]\<rparr>, \<lparr>shape = [1], flat = [0]\<rparr>)"
proof -
  have h1: "example_fs (''data/'' @ ''era5.nc'') = Some era5_dataset"
    by (simp add: example_fs_def)
  have h2: "era5_dataset ''longitude'' = Some \<lparr>shape = [2], flat = [0, 10]\<rparr>"
    by (simp add: era5_dataset_def)
  have h3: "era5_dataset ''latitude'' = Some \<lparr>shape = [1], flat = [0]\<rparr>"
    by (simp add: era5_dataset_def)
  have h4: "era5_dataset ''t2m'' = Some \<lparr>shape = [2, 1, 2], flat = [300, 301, 302, 303]\<rparr>"
    by (simp add: era5_dataset_def)
  have h5: "era5_dataset ''u10'' = Some \<lparr>shape = [2, 1, 2], flat = [1, 2, 3, 4]\<rparr>"
    by (simp add: era5_dataset_def)
  from loaders_apply_unit_conversions [where fs = example_fs and data_dir = "''data/''"
      and filename = "''era5.nc''" and ds = era5_dataset and nc_key = "''t2m''"
      and contains = box_contains and records = atlantis_records and COUNTRY = "''Atlantis''",
      OF h1 h2 h3 h4]
  obtain r where r: "load_weather_data_daily example_fs ''data/'' ''era5.nc'' ''t2m''
             = Inr (r, \<lparr>shape = [2], flat = [0, 10]\<rparr>, \<lparr>shape = [1], flat = [0]\<rparr>)"
      and sh: "shape r = shape \<lparr>shape = [2, 1, 2], flat = [300, 301, 302, 303]\<rparr>"
      and len: "length (flat r) = length (flat \<lparr>shape = [2, 1, 2], flat = [300, 301, 302, 303]\<rparr>)"
      and el: "\<forall>i<length (flat \<lparr>shape = [2, 1, 2], flat = [300, 301, 302, 303]\<rparr>).
                 flat r ! i = (if ''t2m'' = ''t2m''
                    then flat \<lparr>shape = [2, 1, 2], flat = [300, 301, 302, 303]\<rparr> ! i - 273.15
                    else if ''t2m'' = ''ssrd''
                    then flat \<lparr>shape = [2, 1, 2], flat = [300, 301, 302, 303]\<rparr> ! i / 3600
                    else flat \<lparr>shape = [2, 1, 2], flat = [300, 301, 302, 303]\<rparr> ! i)"
    by blast
  have e0: "flat r ! 0 = 300 - 273.15" using el [rule_format, of 0] by simp
  have e3: "flat r ! 3 = 303 - 273.15" using el [rule_format, of 3] by simp
  from r sh len e0 e3 have t2m: "load_weather_data_daily example_fs ''data/'' ''era5.nc'' ''t2m''
             = Inr (r, \<lparr>shape = [2], flat = [0, 10]\<rparr>, \<lparr>shape = [1], flat = [0]\<rparr>)
          \<and> shape r = [2, 1, 2] \<and> length (flat r) = 4
          \<and> flat r ! 0 = 300 - 273.15 \<and> flat r ! 3 = 303 - 273.15"
    by simp
  from loaders_apply_unit_conversions [where fs = example_fs and data_dir = "''data/''"
      and filename = "''era5.nc''" and ds = era5_dataset and nc_key = "''u10''"
      and contains = box_contains and records = atlantis_records and COUNTRY = "''Atlantis''",
      OF h1 h2 h3 h5]
  obtain r' where r': "load_weather_data_daily example_fs ''data/'' ''era5.nc'' ''u10''
             = Inr (r', \<lparr>shape = [2], flat = [0, 10]\<rparr>, \<lparr>shape = [1], flat = [0]\<rparr>)"
      and same: "''u10'' \<noteq> ''t2m'' \<and> ''u10'' \<noteq> ''ssrd''
                   \<longrightarrow> r' = \<lparr>shape = [2, 1, 2], flat = [1, 2, 3, 4]\<rparr>"
    by blast
  from same have "r' = \<lparr>shape = [2, 1, 2], flat = [1, 2, 3, 4]\<rparr>" by simp
  with r' have u10: "load_weather_data_daily example_fs ''data/'' ''era5.nc'' ''u10''
       = Inr (\<lparr>shape = [2, 1, 2], flat = [1, 2, 3, 4]\<rparr>,
              \<lparr>shape = [2], flat = [0, 10]\<rparr>, \<lparr>shape = [1], flat = [0]\<rparr>)"
    by simp
  from t2m u10 h1 h2 h3 h4 h5 show ?thesis by blast
qed

text \<open>
  C9, as the code has it: when no record of the shapefile bears the country name, the file
  holds the variables read, and the grid has at least one cell,
  \<^verbatim>\<open>load_country_weather_data\<close> raises IndexError, which is a LookupError, at the
  first grid cell; it returns neither a mask nor masked data.
\<close>

theorem unknown_country_raises_IndexError:
  assumes "find_country_shapely records COUNTRY = []"
    and "fs (data_dir @ filename) = Some ds"
    and "ds ''longitude'' = Some lons" and "ds ''latitude'' = Some lats"
    and "ds nc_key = Some d"
    and "flat lons \<noteq> []" and "flat lats \<noteq> []"
  shows "load_country_weather_data contains records fs COUNTRY data_dir filename nc_key
           = Inl IndexError
         \<and> is_LookupError IndexError"
  using assms
  by (simp add: load_country_weather_data_def Dataset_def variables_def build_mask_no_country)

text \<open>The theorem of C9 at the example file and the name Mu, which no record bears.\<close>

theorem unknown_country_raises_IndexError_witness:
  "find_country_shapely atlantis_records ''Mu'' = []
   \<and> example_fs (''data/'' @ ''era5.nc'') = Some era5_dataset
   \<and> era5_dataset ''longitude'' = Some \<lparr>shape = [2], flat = [0, 10]\<rparr>
   \<and> era5_dataset ''latitude'' = Some \<lparr>shape = [1], flat = [0]\<rparr>
   \<and> era5_dataset ''t2m'' = Some \<lparr>shape = [2, 1, 2], flat = [300, 301, 302, 303]\<rparr>
   \<and> load_country_weather_data box_contains atlantis_records example_fs
        ''Mu'' ''data/'' ''era5.nc'' ''t2m'' = Inl IndexError"
proof -
  have h0: "find_country_shapely atlantis_records ''Mu'' = []"
    by (simp add: atlantis_records_def)
  have h1: "example_fs (''data/'' @ ''era5.nc'') = Some era5_dataset"
    by (simp add: example_fs_def)
  have h2: "era5_dataset ''longitude'' = Some \<lparr>shape = [2], flat = [0, 10]\<rparr>"
    by (simp add: era5_dataset_def)
  have h3: "era5_dataset ''latitude'' = Some \<lparr>shape = [1], flat = [0]\<rparr>"
    by (simp add: era5_dataset_def)
  have h4: "era5_dataset ''t2m'' = Some \<lparr>shape = [2, 1, 2], flat = [300, 301, 302, 303]\<rparr>"
    by (simp add: era5_dataset_def)
  from unknown_country_raises_IndexError [where fs = example_fs and data_dir = "''data/''"
      and filename = "''era5.nc''" and ds = era5_dataset and nc_key = "''t2m''"
      and contains = box_contains, OF h0 h1 h2 h3 h4]
  show ?thesis using h0 h1 h2 h3 h4 by simp
qed

text \<open>
  C9 as stated fails on a grid without cells: no record bears the name Mu, the loop over the
  grid points has no step, and the function returns an empty mask and empty masked data
  without any exception.
\<close>

theorem unknown_country_on_empty_grid_returns:
  "find_country_shapely lemuria_records ''Mu'' = []
   \<and> load_country_weather_data box_contains lemuria_records empty_grid_fs
        ''Mu'' ''data/'' ''empty.nc'' ''t2m''
      = Inr (\<lparr>shape = [2, 1, 0], flat = []\<rparr>, \<lparr>shape = [1, 0], flat = []\<rparr>)"
proof -
  have none: "find_country_shapely lemuria_records ''Mu'' = []"
    by (simp add: lemuria_records_def)
  have run: "load_country_weather_data box_contains lemuria_records empty_grid_fs
        ''Mu'' ''data/'' ''empty.nc'' ''t2m''
      = Inr (\<lparr>shape = [2, 1, 0], flat = []\<rparr>, \<lparr>shape = [1, 0], flat = []\<rparr>)"
    by code_simp
  from none run show ?thesis by simp
qed

text \<open>
  C10. The result of \<^verbatim>\<open>solar_PV_model\<close> does not depend on its two arguments: in
  one and the same namespace any two pairs of arguments give the same result, and in the
  namespace of the module as the source file leaves it, as in an empty one, every call raises
  NameError for \<^verbatim>\<open>Masked_T2m\<close>.
\<close>

theorem solar_PV_model_ignores_its_arguments:
  "solar_PV_model g T1 S1 = solar_PV_model g T2 S2
   \<and> solar_PV_model module_globals T1 S1 = Inl (NameError ''Masked_T2m'')
   \<and> solar_PV_model Map.empty T1 S1 = Inl (NameError ''Masked_T2m'')"
  by (simp add: solar_PV_model_def load_global_def module_globals_def)


end
